theory Spec2Isabelle
  imports Complex_Main
begin

section \<open>Python values and their string conversions\<close>

text \<open>
  The module \<^verbatim>\<open>KBDB.py\<close> handles three kinds of data: text, integers and the columns
  of a database row, whose Python type is \<^verbatim>\<open>Any\<close>. A column is modelled as a value
  that is \<^verbatim>\<open>None\<close>, an integer or a string; \<open>py_str\<close> is Python's \<^verbatim>\<open>str()\<close> on
  such a value, which is also what an f-string applies to a value it embeds.
\<close>

datatype pyval = PNone | PInt int | PStr string

definition digit_char :: "nat \<Rightarrow> char" where
  "digit_char d = ''0123456789'' ! d"

function str_nat :: "nat \<Rightarrow> string" where
  "str_nat n = (if n < 10 then [digit_char n] else str_nat (n div 10) @ [digit_char (n mod 10)])"
  by pat_completeness auto
termination
  by (relation "measure (\<lambda>n. n)") auto

declare str_nat.simps [simp del]

text \<open>Reading a decimal numeral back, to say what \<open>str_nat\<close> writes.\<close>

definition digit_value :: "char \<Rightarrow> nat" where
  "digit_value c = of_char c - 48"

definition decimal_value :: "string \<Rightarrow> nat" where
  "decimal_value s = foldl (\<lambda>a c. 10 * a + digit_value c) 0 s"

definition str_int :: "int \<Rightarrow> string" where
  "str_int i = (if i < 0 then CHR ''-'' # str_nat (nat (- i)) else str_nat (nat i))"

fun py_str :: "pyval \<Rightarrow> string" where
  "py_str PNone = ''None''"
| "py_str (PInt i) = str_int i"
| "py_str (PStr s) = s"

text \<open>
  \<open>py_repr\<close> is \<^verbatim>\<open>repr()\<close> of a string, which \<^verbatim>\<open>str()\<close> of a \<^verbatim>\<open>KeyError\<close> shows:
  the quote is \<^verbatim>\<open>"\<close> when the text has a \<^verbatim>\<open>'\<close> and no \<^verbatim>\<open>"\<close>, the quote and the
  backslash are escaped, tab, newline and carriage return are written \<^verbatim>\<open>\t\<close>,
  \<^verbatim>\<open>\n\<close>, \<^verbatim>\<open>\r\<close>, and any other control character as \<^verbatim>\<open>\xhh\<close>. Characters
  outside ASCII are kept as they are.
\<close>

definition hex_char :: "nat \<Rightarrow> char" where
  "hex_char d = ''0123456789abcdef'' ! d"

definition repr_char :: "char \<Rightarrow> char \<Rightarrow> string" where
  "repr_char quote c =
     (if c = quote \<or> c = CHR 0x5C then [CHR 0x5C, c]
      else if c = CHR 0x09 then [CHR 0x5C, CHR ''t'']
      else if c = CHR 0x0A then [CHR 0x5C, CHR ''n'']
      else if c = CHR 0x0D then [CHR 0x5C, CHR ''r'']
      else if of_char c < (32::nat) \<or> c = CHR 0x7F
        then [CHR 0x5C, CHR ''x'', hex_char (of_char c div 16), hex_char (of_char c mod 16)]
      else [c])"

definition py_repr :: "string \<Rightarrow> string" where
  "py_repr s =
     (let quote = (if CHR 0x27 \<in> set s \<and> CHR 0x22 \<notin> set s then CHR 0x22 else CHR 0x27)
      in [quote] @ concat (map (repr_char quote) s) @ [quote])"

section \<open>Exceptions\<close>

text \<open>
  Every exception the module can meet is a subclass of Python's \<^verbatim>\<open>Exception\<close>:
  a missing dictionary key, an index out of range, and whatever the embedding client
  and the database driver raise, each with its message. \<open>str_exn\<close> is \<^verbatim>\<open>str(e)\<close>.
\<close>

datatype exn =
    KeyError string
  | IndexError
  | EmbeddingError string
  | DatabaseError string

fun str_exn :: "exn \<Rightarrow> string" where
  "str_exn (KeyError k) = py_repr k"
| "str_exn IndexError = ''list index out of range''"
| "str_exn (EmbeddingError msg) = msg"
| "str_exn (DatabaseError msg) = msg"

section \<open>Configuration: dataclasses and tables\<close>

record Model =
  model :: string
  prefix :: string
  suffix :: string
  distance_metric :: string

record Task =
  name :: string
  description :: string

text \<open>
  The constructor of the dataclass \<^verbatim>\<open>Model\<close>: an argument left out takes the default
  of its field, the empty string for \<^verbatim>\<open>prefix\<close> and \<^verbatim>\<open>suffix\<close> and \<^verbatim>\<open>"cosine"\<close>
  for \<^verbatim>\<open>distance_metric\<close>.
\<close>

definition Model_init :: "string \<Rightarrow> string option \<Rightarrow> string option \<Rightarrow> string option \<Rightarrow> Model" where
  "Model_init m p s d =
     \<lparr> model = m,
       prefix = (case p of None \<Rightarrow> '''' | Some x \<Rightarrow> x),
       suffix = (case s of None \<Rightarrow> '''' | Some x \<Rightarrow> x),
       distance_metric = (case d of None \<Rightarrow> ''cosine'' | Some x \<Rightarrow> x) \<rparr>"

definition MODELS :: "string \<rightharpoonup> Model" where
  "MODELS = map_of
     [ (''qa'',           Model_init ''nomic-embed-text:v1.5'' (Some ''search_query: '') None None),
       (''style'',        Model_init ''nomic-embed-text:v1.5'' (Some ''classification: '') None None),
       (''semantic'',     Model_init ''nomic-embed-text:v1.5'' (Some ''clustering: '') None None),
       (''similar_code'', Model_init ''hamidakach/nomic-embed-text-v1.5-GGUF'' (Some ''clustering: '') None None) ]"

definition TASKS :: "string \<rightharpoonup> Task" where
  "TASKS = map_of
     [ (''style'',        \<lparr> name = ''style'',        description = ''Search for content clustered by theme or style'' \<rparr>),
       (''qa'',           \<lparr> name = ''qa'',           description = ''Search optimized for question->answer pairs'' \<rparr>),
       (''semantic'',     \<lparr> name = ''semantic'',     description = ''Search based on semantic similarity'' \<rparr>),
       (''similar_code'', \<lparr> name = ''similar_code'', description = ''Search for similar code snippets'' \<rparr>) ]"

definition DISTANCE_OPERATORS :: "string \<rightharpoonup> string" where
  "DISTANCE_OPERATORS = map_of
     [ (''cosine'', ''<=>''), (''inner_product'', ''<#>''), (''l2'', ''<->'') ]"

definition DISTANCE_ORDER :: "string \<rightharpoonup> string" where
  "DISTANCE_ORDER = map_of
     [ (''cosine'', ''ASC''), (''inner_product'', ''DESC''), (''l2'', ''ASC'') ]"

text \<open>
  \<^verbatim>\<open>SEARCH_QUERY.format(operator=..., order_direction=...)\<close>: the template has these two
  fields and no other brace, so formatting it is the text with both put in place.
\<close>

definition SEARCH_QUERY_format :: "string \<Rightarrow> string \<Rightarrow> string" where
  "SEARCH_QUERY_format operator order_direction =
     ''\<newline>SELECT\<newline>    d.doc_id,\<newline>    d.name AS doc_name,\<newline>    dc.content AS matching_content\<newline>FROM embeddings e\<newline>JOIN document_chunks dc ON e.chunk_id = dc.chunk_id\<newline>JOIN documents d ON dc.doc_id = d.doc_id\<newline>WHERE e.model = %s AND e.task = %s\<newline>ORDER BY e.embedding ''
     @ operator @ '' %s::vector '' @ order_direction @ ''\<newline>LIMIT %s;\<newline>''"

section \<open>The result formatter\<close>

record MatchRecord =
  doc_id :: string
  doc_name :: pyval
  matching_content :: pyval

definition format_part :: "nat \<Rightarrow> MatchRecord \<Rightarrow> string" where
  "format_part i result =
     ''--- Result '' @ str_nat i @ '' | '' @ py_str (doc_name result) @ '' | '' @ doc_id result @ '' ---\<newline>''
     @ ''--- Document Start ---\<newline>''
     @ ''Content: '' @ py_str (matching_content result) @ ''\<newline>''
     @ ''--- Document End ---\<newline>''"

text \<open>The loop over \<^verbatim>\<open>enumerate(results, 1)\<close>, appending to \<^verbatim>\<open>formatted_parts\<close>.\<close>

fun format_loop :: "nat \<Rightarrow> MatchRecord list \<Rightarrow> string list \<Rightarrow> string list" where
  "format_loop i [] formatted_parts = formatted_parts"
| "format_loop i (result # results) formatted_parts =
     format_loop (i + 1) results (formatted_parts @ [format_part i result])"

text \<open>\<^verbatim>\<open>sep.join(parts)\<close>.\<close>

fun join :: "string \<Rightarrow> string list \<Rightarrow> string" where
  "join sep [] = ''''"
| "join sep [p] = p"
| "join sep (p # q # ps) = p @ sep @ join sep (q # ps)"

definition format_results :: "MatchRecord list \<Rightarrow> string" where
  "format_results results =
     (if results = [] then ''No relevant information found in the knowledge base.''
      else join ''\<newline>'' (format_loop 1 results []))"

section \<open>The outside world: embedding backend and document store\<close>

text \<open>
  The embedding client and the database connection are external. A call to either is
  recorded as an event, and what it answers is given by an environment: a function of
  the calls made so far and of the request, so that a backend may answer differently
  from one call to the next. The embedding backend answers with the list
  \<^verbatim>\<open>response.data\<close> of embeddings or raises; the store answers with the rows of
  \<^verbatim>\<open>cursor.fetchall()\<close>, or with the exception raised anywhere between opening the
  cursor and fetching the rows. The numbers of a vector are never inspected by the
  module, so their type is a parameter.
\<close>

datatype 'f event =
    EmbeddingsCreate string string
  | CursorExecute string string string "'f list" int

type_synonym row = "pyval \<times> pyval \<times> pyval"

record 'f env =
  embeddings_create :: "'f event list \<Rightarrow> string \<Rightarrow> string \<Rightarrow> exn + 'f list list"
  cursor_execute :: "'f event list \<Rightarrow> string \<Rightarrow> string \<Rightarrow> string \<Rightarrow> 'f list \<Rightarrow> int \<Rightarrow> exn + row list"

text \<open>
  The state of the process: the four module-level dictionaries, which Python would let
  any code assign to, and the calls made to the outside so far.
\<close>

record tables =
  models :: "string \<rightharpoonup> Model"
  tasks :: "string \<rightharpoonup> Task"
  distance_operators :: "string \<rightharpoonup> string"
  distance_order :: "string \<rightharpoonup> string"

record 'f state =
  globals :: tables
  calls :: "'f event list"

definition initial_tables :: tables where
  "initial_tables =
     \<lparr> models = MODELS, tasks = TASKS,
       distance_operators = DISTANCE_OPERATORS, distance_order = DISTANCE_ORDER \<rparr>"

definition initial_state :: "'f state" where
  "initial_state = \<lparr> globals = initial_tables, calls = [] \<rparr>"

text \<open>\<^verbatim>\<open>d[k]\<close> on a dictionary: the value, or \<^verbatim>\<open>KeyError(k)\<close>.\<close>

definition getitem :: "(string \<rightharpoonup> 'v) \<Rightarrow> string \<Rightarrow> exn + 'v" where
  "getitem d k = (case d k of None \<Rightarrow> Inl (KeyError k) | Some v \<Rightarrow> Inr v)"

section \<open>The server's methods\<close>

text \<open>
  The logging calls write to standard error and are left out. An \<^verbatim>\<open>except\<close> clause
  that logs and re-raises leaves the exception as it was.
\<close>

definition get_embedding ::
  "'f env \<Rightarrow> string \<Rightarrow> Model \<Rightarrow> 'f state \<Rightarrow> (exn + 'f list) \<times> 'f state" where
  "get_embedding env text m s =
     (let formatted_text = prefix m @ text @ suffix m;
          s' = s\<lparr> calls := calls s @ [EmbeddingsCreate (model m) formatted_text] \<rparr>
      in case embeddings_create env (calls s) (model m) formatted_text of
           Inl e \<Rightarrow> (Inl e, s')
         | Inr data \<Rightarrow>
            (case data of
               [] \<Rightarrow> (Inl IndexError, s')
             | embedding # _ \<Rightarrow> (Inr embedding, s')))"

definition row_to_result :: "row \<Rightarrow> MatchRecord" where
  "row_to_result r =
     (case r of (c0, c1, c2) \<Rightarrow>
        \<lparr> doc_id = py_str c0, doc_name = c1, matching_content = c2 \<rparr>)"

definition search_database ::
  "'f env \<Rightarrow> 'f list \<Rightarrow> Model \<Rightarrow> Task \<Rightarrow> int \<Rightarrow> 'f state \<Rightarrow> (exn + MatchRecord list) \<times> 'f state" where
  "search_database env query_embedding m t top_k s =
     (case getitem (distance_operators (globals s)) (distance_metric m) of
        Inl e \<Rightarrow> (Inl e, s)
      | Inr operator \<Rightarrow>
         (case getitem (distance_order (globals s)) (distance_metric m) of
            Inl e \<Rightarrow> (Inl e, s)
          | Inr order_direction \<Rightarrow>
             (let formatted_query = SEARCH_QUERY_format operator order_direction;
                  s' = s\<lparr> calls := calls s @
                         [CursorExecute formatted_query (model m) (name t) query_embedding top_k] \<rparr>
              in case cursor_execute env (calls s) formatted_query (model m) (name t) query_embedding top_k of
                   Inl e \<Rightarrow> (Inl e, s')
                 | Inr results \<Rightarrow> (Inr (map row_to_result results), s'))))"

section \<open>The search tools\<close>

text \<open>
  The handler every tool ends with:
  \<^verbatim>\<open>except Exception as e: return f"Search failed: {str(e)}"\<close>.
  A result \<open>Inl e\<close> of a tool would be an exception leaving it.
\<close>

definition except_Exception :: "(exn + string) \<times> 's \<Rightarrow> (exn + string) \<times> 's" where
  "except_Exception r =
     (case r of
        (Inl e, s) \<Rightarrow> (Inr (''Search failed: '' @ str_exn e), s)
      | (Inr v, s) \<Rightarrow> (Inr v, s))"

definition search_style_try ::
  "'f env \<Rightarrow> string \<Rightarrow> int \<Rightarrow> 'f state \<Rightarrow> (exn + string) \<times> 'f state" where
  "search_style_try env query top_k s =
     (case getitem (models (globals s)) ''style'' of
        Inl e \<Rightarrow> (Inl e, s)
      | Inr m \<Rightarrow>
     (case getitem (tasks (globals s)) ''style'' of
        Inl e \<Rightarrow> (Inl e, s)
      | Inr t \<Rightarrow>
     (case get_embedding env query m s of
        (Inl e, s1) \<Rightarrow> (Inl e, s1)
      | (Inr query_embedding, s1) \<Rightarrow>
     (case search_database env query_embedding m t top_k s1 of
        (Inl e, s2) \<Rightarrow> (Inl e, s2)
      | (Inr results, s2) \<Rightarrow> (Inr (format_results results), s2)))))"

definition search_style ::
  "'f env \<Rightarrow> string \<Rightarrow> int \<Rightarrow> 'f state \<Rightarrow> (exn + string) \<times> 'f state" where
  "search_style env query top_k s = except_Exception (search_style_try env query top_k s)"

definition search_qa_try ::
  "'f env \<Rightarrow> string \<Rightarrow> int \<Rightarrow> 'f state \<Rightarrow> (exn + string) \<times> 'f state" where
  "search_qa_try env query top_k s =
     (case getitem (models (globals s)) ''qa'' of
        Inl e \<Rightarrow> (Inl e, s)
      | Inr m \<Rightarrow>
     (case getitem (tasks (globals s)) ''qa'' of
        Inl e \<Rightarrow> (Inl e, s)
      | Inr t \<Rightarrow>
     (case get_embedding env query m s of
        (Inl e, s1) \<Rightarrow> (Inl e, s1)
      | (Inr query_embedding, s1) \<Rightarrow>
     (case search_database env query_embedding m t top_k s1 of
        (Inl e, s2) \<Rightarrow> (Inl e, s2)
      | (Inr results, s2) \<Rightarrow> (Inr (format_results results), s2)))))"

definition search_qa ::
  "'f env \<Rightarrow> string \<Rightarrow> int \<Rightarrow> 'f state \<Rightarrow> (exn + string) \<times> 'f state" where
  "search_qa env query top_k s = except_Exception (search_qa_try env query top_k s)"

definition search_semantic_similarity_try ::
  "'f env \<Rightarrow> string \<Rightarrow> int \<Rightarrow> 'f state \<Rightarrow> (exn + string) \<times> 'f state" where
  "search_semantic_similarity_try env query top_k s =
     (case getitem (models (globals s)) ''semantic'' of
        Inl e \<Rightarrow> (Inl e, s)
      | Inr m \<Rightarrow>
     (case getitem (tasks (globals s)) ''semantic'' of
        Inl e \<Rightarrow> (Inl e, s)
      | Inr t \<Rightarrow>
     (case get_embedding env query m s of
        (Inl e, s1) \<Rightarrow> (Inl e, s1)
      | (Inr query_embedding, s1) \<Rightarrow>
     (case search_database env query_embedding m t top_k s1 of
        (Inl e, s2) \<Rightarrow> (Inl e, s2)
      | (Inr results, s2) \<Rightarrow> (Inr (format_results results), s2)))))"

definition search_semantic_similarity ::
  "'f env \<Rightarrow> string \<Rightarrow> int \<Rightarrow> 'f state \<Rightarrow> (exn + string) \<times> 'f state" where
  "search_semantic_similarity env query top_k s =
     except_Exception (search_semantic_similarity_try env query top_k s)"

text \<open>
  The tools registered with \<^verbatim>\<open>@mcp.tool\<close>, in the order of the file: the name of each,
  the default of its parameter \<^verbatim>\<open>top_k\<close>, and the function. A caller who gives no
  \<^verbatim>\<open>top_k\<close> gets the default.
\<close>

record 'f tool =
  tool_name :: string
  top_k_default :: int
  tool_fn :: "'f env \<Rightarrow> string \<Rightarrow> int \<Rightarrow> 'f state \<Rightarrow> (exn + string) \<times> 'f state"

definition mcp_tools :: "'f tool list" where
  "mcp_tools =
     [ \<lparr> tool_name = ''search_style'', top_k_default = 3, tool_fn = search_style \<rparr>,
       \<lparr> tool_name = ''search_qa'', top_k_default = 3, tool_fn = search_qa \<rparr>,
       \<lparr> tool_name = ''search_semantic_similarity'', top_k_default = 3,
         tool_fn = search_semantic_similarity \<rparr> ]"

definition call_tool ::
  "'f tool \<Rightarrow> 'f env \<Rightarrow> string \<Rightarrow> int option \<Rightarrow> 'f state \<Rightarrow> (exn + string) \<times> 'f state" where
  "call_tool t env query top_k s =
     tool_fn t env query (case top_k of None \<Rightarrow> top_k_default t | Some k \<Rightarrow> k) s"

text \<open>The states the process can be in: the one at start-up, and any a tool call leaves.\<close>

inductive reachable :: "'f env \<Rightarrow> 'f state \<Rightarrow> bool" for env :: "'f env" where
  start: "reachable env initial_state"
| call: "reachable env s \<Longrightarrow> t \<in> set mcp_tools \<Longrightarrow>
         reachable env (snd (call_tool t env query top_k s))"

section \<open>A document store that ranks by inner product\<close>

text \<open>
  The document store is external: the source holds the query text it is sent and nothing
  of what the store computes. To follow a ranking through, the store is modelled for the
  inner-product operator. Vectors are lists of reals here.
\<close>

record stored_embedding =
  e_model :: string
  e_task :: string
  e_embedding :: "real list"
  e_row :: row

definition inner_product :: "real list \<Rightarrow> real list \<Rightarrow> real" where
  "inner_product u v = sum_list (map (\<lambda>(a, b). a * b) (zip u v))"

text \<open>
  Modelled from the spec: the store's answer to the search query, which is missing from
  the source. The metric table of the spec (section 4.2) gives the ranking expression of
  the inner-product operator \<^verbatim>\<open><#>\<close> as the negative inner product of the stored
  embedding and the query vector; section 6 gives the query: the rows whose embedding
  carries the requested model and task, ordered by that expression in the requested
  direction, limited to \<^verbatim>\<open>top_k\<close> rows. A negative limit is an error of the store.
  Queries with another operator are outside this model.
\<close>

definition store_select ::
  "stored_embedding list \<Rightarrow> string \<Rightarrow> string \<Rightarrow> string \<Rightarrow> real list \<Rightarrow> int \<Rightarrow> exn + row list" where
  "store_select db formatted_query m t v top_k =
     (let hits = filter (\<lambda>e. e_model e = m \<and> e_task e = t) db;
          ranking = (\<lambda>e. - inner_product (e_embedding e) v)
      in if top_k < 0 then Inl (DatabaseError ''LIMIT must not be negative'')
         else if formatted_query = SEARCH_QUERY_format ''<#>'' ''ASC''
           then Inr (map e_row (take (nat top_k) (sort_key ranking hits)))
         else if formatted_query = SEARCH_QUERY_format ''<#>'' ''DESC''
           then Inr (map e_row (take (nat top_k) (rev (sort_key ranking hits))))
         else Inl (DatabaseError ''operator not modelled''))"

definition store_env :: "stored_embedding list \<Rightarrow> real env" where
  "store_env db =
     \<lparr> embeddings_create = (\<lambda>history m input. Inr ([1, 0] # [])),
       cursor_execute = (\<lambda>history. store_select db) \<rparr>"

text \<open>
  Two stored chunks for one model and task: the embedding of \<^verbatim>\<open>far.md\<close> has inner
  product 1 with the query vector \<open>[1, 0]\<close>, the embedding of \<^verbatim>\<open>near.md\<close> has 2.
\<close>

definition two_chunks :: "stored_embedding list" where
  "two_chunks =
     [ \<lparr> e_model = ''m'', e_task = ''t'', e_embedding = [2, 0],
         e_row = (PInt 2, PStr ''near.md'', PStr ''near'') \<rparr>,
       \<lparr> e_model = ''m'', e_task = ''t'', e_embedding = [1, 0],
         e_row = (PInt 1, PStr ''far.md'', PStr ''far'') \<rparr> ]"

section \<open>Backends with fixed answers\<close>

text \<open>
  An environment for running the tools on concrete inputs: the embedding backend answers
  every request with the one vector \<open>[1, 2]\<close>, and the store answers every query with
  the first \<^verbatim>\<open>top_k\<close> of the given rows, as a \<^verbatim>\<open>LIMIT\<close> does, and with an error for a
  negative limit.
\<close>

definition fixed_env :: "row list \<Rightarrow> int env" where
  "fixed_env rows =
     \<lparr> embeddings_create = (\<lambda>history m input. Inr ([1, 2] # [])),
       cursor_execute = (\<lambda>history q m t v top_k.
          if top_k < 0 then Inl (DatabaseError ''LIMIT must not be negative'')
          else Inr (take (nat top_k) rows)) \<rparr>"

definition refund_rows :: "row list" where
  "refund_rows =
     [ (PInt 42, PStr ''policy.md'', PStr ''Refunds within 30 days.''),
       (PInt 7, PStr ''faq.md'', PStr ''Contact support for refunds.'') ]"

section \<open>The common shape of the tools\<close>

text \<open>
  The three tools differ in the key they look up and in nothing else. \<open>search_try\<close>
  is their \<^verbatim>\<open>try\<close> block with the key as a parameter; it serves to state facts about
  the three at once.
\<close>

definition search_try ::
  "string \<Rightarrow> 'f env \<Rightarrow> string \<Rightarrow> int \<Rightarrow> 'f state \<Rightarrow> (exn + string) \<times> 'f state" where
  "search_try key env query top_k s =
     (case getitem (models (globals s)) key of
        Inl e \<Rightarrow> (Inl e, s)
      | Inr m \<Rightarrow>
     (case getitem (tasks (globals s)) key of
        Inl e \<Rightarrow> (Inl e, s)
      | Inr t \<Rightarrow>
     (case get_embedding env query m s of
        (Inl e, s1) \<Rightarrow> (Inl e, s1)
      | (Inr query_embedding, s1) \<Rightarrow>
     (case search_database env query_embedding m t top_k s1 of
        (Inl e, s2) \<Rightarrow> (Inl e, s2)
      | (Inr results, s2) \<Rightarrow> (Inr (format_results results), s2)))))"

text \<open>The events a call added: those of the state after it, past those before it.\<close>

definition new_calls :: "'f state \<Rightarrow> 'f state \<Rightarrow> 'f event list" where
  "new_calls s s' = drop (length (calls s)) (calls s')"

section \<open>The result formatter: properties\<close>

lemma str_nat_small:
  "str_nat (Suc 0) = ''1''" "str_nat (Suc (Suc 0)) = ''2''"
  "str_nat 1 = ''1''" "str_nat 2 = ''2''" "str_nat 7 = ''7''" "str_nat 42 = ''42''"
proof -
  show one: "str_nat 1 = ''1''" and two: "str_nat 2 = ''2''"
    and "str_nat 7 = ''7''" and "str_nat 42 = ''42''"
    by code_simp+
  show "str_nat (Suc 0) = ''1''" using one by simp
  show "str_nat (Suc (Suc 0)) = ''2''" using two by (simp add: numeral_2_eq_2)
qed

text \<open>\<open>str_nat\<close> writes the decimal numeral of its argument, so distinct numbers differ.\<close>

lemma digit_value_digit_char: "d < 10 \<Longrightarrow> digit_value (digit_char d) = d"
proof -
  assume "d < 10"
  then have "d \<in> {0, 1, 2, 3, 4, 5, 6, 7, 8, 9}"
    by auto
  then show ?thesis
    by (auto simp: digit_char_def digit_value_def)
qed

lemma decimal_value_snoc: "decimal_value (s @ [c]) = 10 * decimal_value s + digit_value c"
  by (simp add: decimal_value_def)

lemma str_nat_decimal: "decimal_value (str_nat n) = n"
proof (induction n rule: str_nat.induct)
  case (1 n)
  show ?case
  proof (cases "n < 10")
    case True
    then have "str_nat n = [digit_char n]" by (subst str_nat.simps) simp
    with True show ?thesis by (simp add: decimal_value_def digit_value_digit_char)
  next
    case False
    then have "str_nat n = str_nat (n div 10) @ [digit_char (n mod 10)]"
      by (subst str_nat.simps) simp
    moreover have "decimal_value (str_nat (n div 10)) = n div 10" using False by (rule "1.IH")
    ultimately show ?thesis
      by (simp add: decimal_value_snoc digit_value_digit_char)
  qed
qed

lemma str_nat_inj: "str_nat a = str_nat b \<Longrightarrow> a = b"
  by (metis str_nat_decimal)




text \<open>
  C7. For the empty list of match records the formatter returns the fixed sentinel
  \<^verbatim>\<open>No relevant information found in the knowledge base.\<close>, which is not the empty
  string. The formatter is a total function to strings: it has no branch that raises.
\<close>

theorem format_results_empty:
  "format_results [] = ''No relevant information found in the knowledge base.''
   \<and> format_results [] \<noteq> ''''"
  by (simp add: format_results_def)



section \<open>The server's methods: properties\<close>

lemma get_embedding_state:
  "snd (get_embedding env text m s) =
     s\<lparr> calls := calls s @ [EmbeddingsCreate (model m) (prefix m @ text @ suffix m)] \<rparr>"
  by (simp add: get_embedding_def Let_def split: sum.splits list.splits)

lemma get_embedding_result:
  "fst (get_embedding env text m s) =
     (case embeddings_create env (calls s) (model m) (prefix m @ text @ suffix m) of
        Inl e \<Rightarrow> Inl e
      | Inr [] \<Rightarrow> Inl IndexError
      | Inr (v # _) \<Rightarrow> Inr v)"
  by (simp add: get_embedding_def Let_def split: sum.splits list.splits)

text \<open>
  C6. For every text and every model profile, \<^verbatim>\<open>_get_embedding\<close> makes one call to the
  embedding backend, for the model of the profile and with the input
  \<^verbatim>\<open>prefix + text + suffix\<close>, and nothing else changes in the state; when the backend
  answers, the result is the first embedding of the answer as it is, and when the backend
  raises, the exception is passed on.
\<close>

theorem get_embedding_frames_text:
  "snd (get_embedding env text m s) =
      s\<lparr> calls := calls s @ [EmbeddingsCreate (model m) (prefix m @ text @ suffix m)] \<rparr>
   \<and> (embeddings_create env (calls s) (model m) (prefix m @ text @ suffix m) = Inr (v # rest)
        \<longrightarrow> fst (get_embedding env text m s) = Inr v)
   \<and> (embeddings_create env (calls s) (model m) (prefix m @ text @ suffix m) = Inl e
        \<longrightarrow> fst (get_embedding env text m s) = Inl e)"
  by (simp add: get_embedding_state get_embedding_result)

text \<open>
  The profile of \<^verbatim>\<open>qa\<close> with the text \<^verbatim>\<open>refund policy\<close>: the backend is asked for
  \<^verbatim>\<open>search_query: refund policy\<close> and its vector comes back.
\<close>

theorem get_embedding_frames_text_witness:
  "embeddings_create (fixed_env []) [] ''nomic-embed-text:v1.5'' ''search_query: refund policy'' = Inr ([1, 2] # [])
   \<and> get_embedding (fixed_env []) ''refund policy''
        (Model_init ''nomic-embed-text:v1.5'' (Some ''search_query: '') None None) initial_state =
      (Inr [1, 2],
       \<lparr> globals = initial_tables,
         calls = [EmbeddingsCreate ''nomic-embed-text:v1.5'' ''search_query: refund policy''] \<rparr>)"
proof -
  let ?m = "Model_init ''nomic-embed-text:v1.5'' (Some ''search_query: '') None None"
  have h: "embeddings_create (fixed_env []) (calls (initial_state :: int state)) (model ?m)
             (prefix ?m @ ''refund policy'' @ suffix ?m) = Inr ([1, 2] # [])"
    by (simp add: fixed_env_def)
  have h': "embeddings_create (fixed_env []) [] ''nomic-embed-text:v1.5'' ''search_query: refund policy'' = Inr ([1, 2] # [])"
    by (simp add: fixed_env_def)
  from get_embedding_frames_text [of "fixed_env []" "''refund policy''" ?m initial_state "[1, 2]" "[]"] h
  have "snd (get_embedding (fixed_env []) ''refund policy'' ?m initial_state) =
          initial_state\<lparr> calls := calls initial_state @ [EmbeddingsCreate (model ?m) (prefix ?m @ ''refund policy'' @ suffix ?m)] \<rparr>"
    and "fst (get_embedding (fixed_env []) ''refund policy'' ?m initial_state) = Inr [1, 2]"
    by blast+
  then have "get_embedding (fixed_env []) ''refund policy'' ?m initial_state =
       (Inr [1, 2], initial_state\<lparr> calls := calls initial_state @ [EmbeddingsCreate (model ?m) (prefix ?m @ ''refund policy'' @ suffix ?m)] \<rparr>)"
    by (simp add: prod_eq_iff)
  then show ?thesis using h'
    by (simp add: initial_state_def Model_init_def)
qed

lemma search_database_globals:
  "globals (snd (search_database env v m t k s)) = globals s"
  by (simp add: search_database_def Let_def split: sum.splits)

lemma search_database_cosine:
  assumes "globals s = initial_tables" and "distance_metric m = ''cosine''"
  shows "search_database env v m t k s =
     (case cursor_execute env (calls s) (SEARCH_QUERY_format ''<=>'' ''ASC'') (model m) (name t) v k of
        Inl e \<Rightarrow> (Inl e, s\<lparr> calls := calls s @ [CursorExecute (SEARCH_QUERY_format ''<=>'' ''ASC'') (model m) (name t) v k] \<rparr>)
      | Inr rows \<Rightarrow> (Inr (map row_to_result rows), s\<lparr> calls := calls s @ [CursorExecute (SEARCH_QUERY_format ''<=>'' ''ASC'') (model m) (name t) v k] \<rparr>))"
  using assms
  by (simp add: search_database_def getitem_def initial_tables_def DISTANCE_OPERATORS_def DISTANCE_ORDER_def Let_def)

section \<open>The configuration: properties\<close>

lemma dom_TASKS: "dom TASKS = {''style'', ''qa'', ''semantic'', ''similar_code''}"
  by (auto simp: TASKS_def dom_def split: if_splits)

lemma dom_MODELS: "dom MODELS = {''style'', ''qa'', ''semantic'', ''similar_code''}"
  by (auto simp: MODELS_def dom_def split: if_splits)

lemma registry_entry:
  assumes "key \<in> {''style'', ''qa'', ''semantic''}"
  shows "\<exists>m t. MODELS key = Some m \<and> TASKS key = Some t \<and> distance_metric m = ''cosine''
            \<and> suffix m = '''' \<and> name t = key \<and> model m = ''nomic-embed-text:v1.5''"
  using assms by (auto simp: MODELS_def TASKS_def Model_init_def)

text \<open>
  C5. For every task identifier of the static registry, the key has a model profile, and
  the distance metric of that profile has an entry in the operator table and an entry in
  the sort-direction table: both look-ups of \<^verbatim>\<open>_search_database\<close> succeed.
\<close>

theorem registry_metric_resolves:
  assumes "key \<in> dom MODELS \<union> dom TASKS"
  shows "\<exists>m operator order_direction.
           getitem MODELS key = Inr m
         \<and> getitem DISTANCE_OPERATORS (distance_metric m) = Inr operator
         \<and> getitem DISTANCE_ORDER (distance_metric m) = Inr order_direction"
proof -
  from assms have "key \<in> {''style'', ''qa'', ''semantic'', ''similar_code''}"
    by (simp add: dom_TASKS dom_MODELS)
  then show ?thesis
    by (auto simp: getitem_def MODELS_def Model_init_def DISTANCE_OPERATORS_def DISTANCE_ORDER_def)
qed

text \<open>The identifier \<^verbatim>\<open>similar_code\<close> is in the registry, and its metric resolves.\<close>

theorem registry_metric_resolves_witness:
  "''similar_code'' \<in> dom MODELS \<union> dom TASKS
   \<and> (\<exists>m operator order_direction.
           getitem MODELS ''similar_code'' = Inr m
         \<and> getitem DISTANCE_OPERATORS (distance_metric m) = Inr operator
         \<and> getitem DISTANCE_ORDER (distance_metric m) = Inr order_direction)"
proof -
  have h: "''similar_code'' \<in> dom MODELS \<union> dom TASKS"
    by (simp add: dom_MODELS)
  from h registry_metric_resolves [OF h] show ?thesis by blast
qed

section \<open>The search tools: properties\<close>

lemma search_style_eq: "search_style = (\<lambda>env q k s. except_Exception (search_try ''style'' env q k s))"
  by (intro ext) (simp add: search_style_def search_style_try_def search_try_def)

lemma search_qa_eq: "search_qa = (\<lambda>env q k s. except_Exception (search_try ''qa'' env q k s))"
  by (intro ext) (simp add: search_qa_def search_qa_try_def search_try_def)

lemma search_semantic_similarity_eq:
  "search_semantic_similarity = (\<lambda>env q k s. except_Exception (search_try ''semantic'' env q k s))"
  by (intro ext) (simp add: search_semantic_similarity_def search_semantic_similarity_try_def search_try_def)

lemma except_Exception_snd: "snd (except_Exception r) = snd r"
  by (simp add: except_Exception_def split: prod.splits sum.splits)

lemma except_Exception_fst:
  "fst (except_Exception r) =
     Inr (case fst r of Inl e \<Rightarrow> ''Search failed: '' @ str_exn e | Inr out \<Rightarrow> out)"
  by (simp add: except_Exception_def split: prod.splits sum.splits)

lemma tool_cases:
  assumes "t \<in> set mcp_tools"
  obtains "tool_fn t = search_style" | "tool_fn t = search_qa" | "tool_fn t = search_semantic_similarity"
  using assms by (auto simp: mcp_tools_def)

lemma tool_fn_key:
  assumes "t \<in> set mcp_tools"
  shows "\<exists>key \<in> {''style'', ''qa'', ''semantic''}.
           tool_fn t = (\<lambda>env q k s. except_Exception (search_try key env q k s))"
  using assms
  by (auto simp: mcp_tools_def search_style_eq search_qa_eq search_semantic_similarity_eq)

lemma get_embedding_globals:
  "get_embedding env raw m s = (r, s1) \<Longrightarrow> globals s1 = globals s"
  using get_embedding_state [of env raw m s] by simp

lemma search_database_keeps_globals:
  "search_database env v m t k s = (r, s2) \<Longrightarrow> globals s2 = globals s"
  using search_database_globals [of env v m t k s] by simp

lemma search_try_globals: "globals (snd (search_try key env q k s)) = globals s"
  unfolding search_try_def
  by (auto split: sum.splits prod.splits
      dest!: get_embedding_globals search_database_keeps_globals)

lemma call_tool_globals:
  assumes "t \<in> set mcp_tools"
  shows "globals (snd (call_tool t env q k s)) = globals s"
proof -
  from tool_fn_key [OF assms] obtain key where
    "tool_fn t = (\<lambda>env q k s. except_Exception (search_try key env q k s))" by blast
  then show ?thesis
    by (simp add: call_tool_def except_Exception_snd search_try_globals)
qed

lemma reachable_globals: "reachable env s \<Longrightarrow> globals s = initial_tables"
proof (induction rule: reachable.induct)
  case start
  show ?case by (simp add: initial_state_def)
next
  case (call s t query top_k)
  then show ?case by (simp add: call_tool_globals)
qed

text \<open>
  C9. Each public search operation leaves the four tables as it found them, whatever the
  inputs and whatever the backends answer; the tables are set at start-up, so in every
  state the process can reach they are the ones of the source.
\<close>

theorem tables_never_mutated:
  "globals (snd (search_style env query top_k s)) = globals s
   \<and> globals (snd (search_qa env query top_k s)) = globals s
   \<and> globals (snd (search_semantic_similarity env query top_k s)) = globals s
   \<and> (reachable env s \<longrightarrow> globals s = initial_tables)"
  by (simp add: search_style_eq search_qa_eq search_semantic_similarity_eq
      except_Exception_snd search_try_globals reachable_globals)

text \<open>The state after one call of \<^verbatim>\<open>search_qa\<close> is reachable, and its tables are the initial ones.\<close>

theorem tables_never_mutated_witness:
  "reachable (fixed_env refund_rows)
      (snd (call_tool (mcp_tools ! 1) (fixed_env refund_rows) ''refund policy'' None initial_state))
   \<and> globals (snd (call_tool (mcp_tools ! 1) (fixed_env refund_rows) ''refund policy'' None initial_state))
       = initial_tables"
proof -
  have "mcp_tools ! 1 \<in> set (mcp_tools :: int tool list)" by (simp add: mcp_tools_def)
  then have r: "reachable (fixed_env refund_rows)
      (snd (call_tool (mcp_tools ! 1) (fixed_env refund_rows) ''refund policy'' None initial_state))"
    by (rule reachable.call [OF reachable.start])
  from r tables_never_mutated [of "fixed_env refund_rows" _ _
      "snd (call_tool (mcp_tools ! 1) (fixed_env refund_rows) ''refund policy'' None initial_state)"]
  show ?thesis by blast
qed

lemma search_try_unfold:
  assumes g: "globals s = initial_tables" and m: "MODELS key = Some m" and t: "TASKS key = Some t"
    and c: "distance_metric m = ''cosine''"
  shows "search_try key env q k s =
     (let input = prefix m @ q @ suffix m;
          s1 = s\<lparr> calls := calls s @ [EmbeddingsCreate (model m) input] \<rparr>
      in case embeddings_create env (calls s) (model m) input of
           Inl e \<Rightarrow> (Inl e, s1)
         | Inr [] \<Rightarrow> (Inl IndexError, s1)
         | Inr (v # _) \<Rightarrow>
            (let fq = SEARCH_QUERY_format ''<=>'' ''ASC'';
                 s2 = s1\<lparr> calls := calls s1 @ [CursorExecute fq (model m) (name t) v k] \<rparr>
             in case cursor_execute env (calls s1) fq (model m) (name t) v k of
                  Inl e \<Rightarrow> (Inl e, s2)
                | Inr rows \<Rightarrow> (Inr (format_results (map row_to_result rows)), s2)))"
proof -
  have lk: "getitem (models (globals s)) key = Inr m" "getitem (tasks (globals s)) key = Inr t"
    using g m t by (simp_all add: getitem_def initial_tables_def)
  have sd: "\<And>v (s1 :: 'a state). globals s1 = initial_tables \<Longrightarrow> search_database env v m t k s1 =
     (case cursor_execute env (calls s1) (SEARCH_QUERY_format ''<=>'' ''ASC'') (model m) (name t) v k of
        Inl e \<Rightarrow> (Inl e, s1\<lparr> calls := calls s1 @ [CursorExecute (SEARCH_QUERY_format ''<=>'' ''ASC'') (model m) (name t) v k] \<rparr>)
      | Inr rows \<Rightarrow> (Inr (map row_to_result rows), s1\<lparr> calls := calls s1 @ [CursorExecute (SEARCH_QUERY_format ''<=>'' ''ASC'') (model m) (name t) v k] \<rparr>))"
    by (rule search_database_cosine) (simp_all add: c)
  show ?thesis
    unfolding search_try_def lk
    by (simp add: get_embedding_def Let_def sd g split: sum.splits list.splits)
qed

lemma search_try_new_calls:
  assumes g: "globals s = initial_tables" and m: "MODELS key = Some m" and t: "TASKS key = Some t"
    and c: "distance_metric m = ''cosine''"
  shows "new_calls s (snd (search_try key env q k s)) =
     EmbeddingsCreate (model m) (prefix m @ q @ suffix m) #
       (case embeddings_create env (calls s) (model m) (prefix m @ q @ suffix m) of
          Inl e \<Rightarrow> []
        | Inr [] \<Rightarrow> []
        | Inr (v # _) \<Rightarrow> [CursorExecute (SEARCH_QUERY_format ''<=>'' ''ASC'') (model m) (name t) v k])"
  unfolding search_try_unfold [OF g m t c]
  by (simp add: new_calls_def Let_def split: sum.splits list.splits)

lemma call_tool_unfold:
  assumes r: "reachable env s" and t: "t \<in> set mcp_tools"
  shows "\<exists>key m tk. key \<in> {''style'', ''qa'', ''semantic''} \<and> MODELS key = Some m \<and> TASKS key = Some tk
           \<and> distance_metric m = ''cosine''
           \<and> call_tool t env q (Some k) s = except_Exception (search_try key env q k s)"
proof -
  from tool_fn_key [OF t] obtain key where
    key: "key \<in> {''style'', ''qa'', ''semantic''}"
    and fn: "tool_fn t = (\<lambda>env q k s. except_Exception (search_try key env q k s))" by blast
  from registry_entry [OF key] obtain m tk where
    "MODELS key = Some m" "TASKS key = Some tk" "distance_metric m = ''cosine''" by blast
  with key fn show ?thesis by (auto simp: call_tool_def)
qed

lemma call_tool_new_calls:
  assumes r: "reachable env s" and t: "t \<in> set mcp_tools"
  shows "\<exists>key \<in> {''style'', ''qa'', ''semantic''}. \<exists>input.
           new_calls s (snd (call_tool t env query top_k s)) = [EmbeddingsCreate ''nomic-embed-text:v1.5'' input]
         \<or> (\<exists>v k. new_calls s (snd (call_tool t env query top_k s)) =
               [EmbeddingsCreate ''nomic-embed-text:v1.5'' input,
                CursorExecute (SEARCH_QUERY_format ''<=>'' ''ASC'') ''nomic-embed-text:v1.5'' key v k])"
proof -
  define k where "k = (case top_k of None \<Rightarrow> top_k_default t | Some k \<Rightarrow> k)"
  from tool_fn_key [OF t] obtain key where
    key: "key \<in> {''style'', ''qa'', ''semantic''}"
    and fn: "tool_fn t = (\<lambda>env q k s. except_Exception (search_try key env q k s))" by blast
  from registry_entry [OF key] obtain m tk where
    m: "MODELS key = Some m" and tk: "TASKS key = Some tk" and c: "distance_metric m = ''cosine''"
    and nm: "name tk = key" "model m = ''nomic-embed-text:v1.5''" by blast
  have g: "globals s = initial_tables" using r by (rule reachable_globals)
  have eq: "call_tool t env query top_k s = except_Exception (search_try key env query k s)"
    by (simp add: call_tool_def fn k_def)
  have "new_calls s (snd (call_tool t env query top_k s)) =
     EmbeddingsCreate (model m) (prefix m @ query @ suffix m) #
       (case embeddings_create env (calls s) (model m) (prefix m @ query @ suffix m) of
          Inl e \<Rightarrow> []
        | Inr [] \<Rightarrow> []
        | Inr (v # _) \<Rightarrow> [CursorExecute (SEARCH_QUERY_format ''<=>'' ''ASC'') (model m) (name tk) v k])"
    unfolding eq except_Exception_snd by (rule search_try_new_calls [OF g m tk c])
  then have "new_calls s (snd (call_tool t env query top_k s)) = [EmbeddingsCreate ''nomic-embed-text:v1.5'' (prefix m @ query @ suffix m)]
         \<or> (\<exists>v k. new_calls s (snd (call_tool t env query top_k s)) =
               [EmbeddingsCreate ''nomic-embed-text:v1.5'' (prefix m @ query @ suffix m),
                CursorExecute (SEARCH_QUERY_format ''<=>'' ''ASC'') ''nomic-embed-text:v1.5'' key v k])"
    by (simp add: nm split: sum.splits list.splits)
  with key show ?thesis by blast
qed

lemma query_formats_differ:
  "SEARCH_QUERY_format ''<=>'' ''ASC'' \<noteq> SEARCH_QUERY_format ''<#>'' ''DESC''"
  "SEARCH_QUERY_format ''<=>'' ''ASC'' \<noteq> SEARCH_QUERY_format ''<->'' ''ASC''"
  by (simp_all add: SEARCH_QUERY_format_def)

lemma search_qa_refund:
  "search_qa (fixed_env refund_rows) ''What is the refund policy?'' 2 initial_state =
     (Inr ''--- Result 1 | policy.md | 42 ---\<newline>--- Document Start ---\<newline>Content: Refunds within 30 days.\<newline>--- Document End ---\<newline>\<newline>--- Result 2 | faq.md | 7 ---\<newline>--- Document Start ---\<newline>Content: Contact support for refunds.\<newline>--- Document End ---\<newline>'',
      \<lparr> globals = initial_tables,
        calls = [ EmbeddingsCreate ''nomic-embed-text:v1.5'' ''search_query: What is the refund policy?'',
                  CursorExecute (SEARCH_QUERY_format ''<=>'' ''ASC'') ''nomic-embed-text:v1.5'' ''qa'' [1, 2] 2 ] \<rparr>)"
  by (simp add: search_qa_def search_qa_try_def except_Exception_def getitem_def
      initial_state_def initial_tables_def MODELS_def TASKS_def Model_init_def
      get_embedding_def search_database_def DISTANCE_OPERATORS_def DISTANCE_ORDER_def
      fixed_env_def format_results_def Let_def refund_rows_def row_to_result_def
      format_part_def str_int_def str_nat_small)

text \<open>
  C4. A public search operation never lets an exception out: every registered tool returns
  a string, for every input, state and pair of backends; and whenever the \<^verbatim>\<open>try\<close> block
  of a tool raises an exception, be it a missing key of the configuration, a failure of the
  embedding backend or a failure of the store, the tool returns \<^verbatim>\<open>Search failed:\<close>
  followed by the message of that exception.
\<close>

theorem search_errors_caught:
  "(t \<in> set mcp_tools \<longrightarrow> (\<exists>out. fst (call_tool t env query top_k s) = Inr out))
   \<and> (fst (search_style_try env query k s) = Inl e
        \<longrightarrow> fst (search_style env query k s) = Inr (''Search failed: '' @ str_exn e))
   \<and> (fst (search_qa_try env query k s) = Inl e
        \<longrightarrow> fst (search_qa env query k s) = Inr (''Search failed: '' @ str_exn e))
   \<and> (fst (search_semantic_similarity_try env query k s) = Inl e
        \<longrightarrow> fst (search_semantic_similarity env query k s) = Inr (''Search failed: '' @ str_exn e))"
proof (intro conjI impI)
  assume "t \<in> set mcp_tools"
  then show "\<exists>out. fst (call_tool t env query top_k s) = Inr out"
    by (cases rule: tool_cases)
       (simp_all add: call_tool_def search_style_def search_qa_def search_semantic_similarity_def
          except_Exception_fst)
qed (simp_all add: search_style_def search_qa_def search_semantic_similarity_def except_Exception_fst)

lemma negative_limit_raises:
  "fst (search_style_try (fixed_env []) ''q'' (- 1) initial_state) = Inl (DatabaseError ''LIMIT must not be negative'')"
  "fst (search_qa_try (fixed_env []) ''q'' (- 1) initial_state) = Inl (DatabaseError ''LIMIT must not be negative'')"
  "fst (search_semantic_similarity_try (fixed_env []) ''q'' (- 1) initial_state) = Inl (DatabaseError ''LIMIT must not be negative'')"
  by (simp_all add: search_style_try_def search_qa_try_def search_semantic_similarity_try_def getitem_def
      initial_state_def initial_tables_def MODELS_def TASKS_def Model_init_def
      get_embedding_def search_database_def DISTANCE_OPERATORS_def DISTANCE_ORDER_def
      fixed_env_def Let_def)

text \<open>
  A store that rejects a negative limit: the \<^verbatim>\<open>try\<close> block of each tool raises the
  error of the store, and each tool returns it as a string.
\<close>

theorem search_errors_caught_witness:
  "mcp_tools ! 2 \<in> set (mcp_tools :: int tool list)
   \<and> (\<exists>out. fst (call_tool (mcp_tools ! 2) (fixed_env []) ''q'' (Some (- 1)) initial_state) = Inr out)
   \<and> fst (search_style_try (fixed_env []) ''q'' (- 1) initial_state) = Inl (DatabaseError ''LIMIT must not be negative'')
   \<and> fst (search_style (fixed_env []) ''q'' (- 1) initial_state) = Inr ''Search failed: LIMIT must not be negative''
   \<and> fst (search_qa_try (fixed_env []) ''q'' (- 1) initial_state) = Inl (DatabaseError ''LIMIT must not be negative'')
   \<and> fst (search_qa (fixed_env []) ''q'' (- 1) initial_state) = Inr ''Search failed: LIMIT must not be negative''
   \<and> fst (search_semantic_similarity_try (fixed_env []) ''q'' (- 1) initial_state) = Inl (DatabaseError ''LIMIT must not be negative'')
   \<and> fst (search_semantic_similarity (fixed_env []) ''q'' (- 1) initial_state) = Inr ''Search failed: LIMIT must not be negative''"
proof -
  have h: "mcp_tools ! 2 \<in> set (mcp_tools :: int tool list)" by (simp add: mcp_tools_def)
  from search_errors_caught [of "mcp_tools ! 2" "fixed_env []" "''q''" "Some (- 1)" initial_state "- 1"
      "DatabaseError ''LIMIT must not be negative''"] h negative_limit_raises
  show ?thesis by simp
qed

text \<open>
  C1, as amended. A public search operation called with \<open>top_k \<le> 0\<close> does not
  validate \<open>top_k\<close>: in any state the process can reach it first sends the framed query
  to the embedding backend; when the backend answers with a vector it sends the store the
  cosine query with that vector and \<open>top_k\<close> unchanged as the limit; and it returns the
  formatted rows of the store, or the text \<^verbatim>\<open>Search failed:\<close> with the message of the
  exception a backend raised. There is no validation error.
\<close>

theorem search_top_k_not_validated:
  assumes r: "reachable env s" and t: "t \<in> set mcp_tools" and k: "top_k \<le> 0"
  shows "\<exists>key m tk input.
           MODELS key = Some m \<and> TASKS key = Some tk \<and> input = prefix m @ query @ suffix m
         \<and> new_calls s (snd (call_tool t env query (Some top_k) s)) =
             EmbeddingsCreate (model m) input #
               (case embeddings_create env (calls s) (model m) input of
                  Inl e \<Rightarrow> []
                | Inr [] \<Rightarrow> []
                | Inr (v # _) \<Rightarrow> [CursorExecute (SEARCH_QUERY_format ''<=>'' ''ASC'') (model m) (name tk) v top_k])
         \<and> fst (call_tool t env query (Some top_k) s) =
             Inr (case embeddings_create env (calls s) (model m) input of
                    Inl e \<Rightarrow> ''Search failed: '' @ str_exn e
                  | Inr [] \<Rightarrow> ''Search failed: list index out of range''
                  | Inr (v # _) \<Rightarrow>
                     (case cursor_execute env (calls s @ [EmbeddingsCreate (model m) input])
                             (SEARCH_QUERY_format ''<=>'' ''ASC'') (model m) (name tk) v top_k of
                        Inl e \<Rightarrow> ''Search failed: '' @ str_exn e
                      | Inr rows \<Rightarrow> format_results (map row_to_result rows)))"
proof -
  from call_tool_unfold [OF r t] obtain key m tk where
    m: "MODELS key = Some m" and tk: "TASKS key = Some tk" and c: "distance_metric m = ''cosine''"
    and eq: "call_tool t env query (Some top_k) s = except_Exception (search_try key env query top_k s)"
    by blast
  have g: "globals s = initial_tables" using r by (rule reachable_globals)
  have tr: "new_calls s (snd (call_tool t env query (Some top_k) s)) =
     EmbeddingsCreate (model m) (prefix m @ query @ suffix m) #
       (case embeddings_create env (calls s) (model m) (prefix m @ query @ suffix m) of
          Inl e \<Rightarrow> []
        | Inr [] \<Rightarrow> []
        | Inr (v # _) \<Rightarrow> [CursorExecute (SEARCH_QUERY_format ''<=>'' ''ASC'') (model m) (name tk) v top_k])"
    unfolding eq except_Exception_snd by (rule search_try_new_calls [OF g m tk c])
  have res: "fst (call_tool t env query (Some top_k) s) =
             Inr (case embeddings_create env (calls s) (model m) (prefix m @ query @ suffix m) of
                    Inl e \<Rightarrow> ''Search failed: '' @ str_exn e
                  | Inr [] \<Rightarrow> ''Search failed: list index out of range''
                  | Inr (v # _) \<Rightarrow>
                     (case cursor_execute env (calls s @ [EmbeddingsCreate (model m) (prefix m @ query @ suffix m)])
                             (SEARCH_QUERY_format ''<=>'' ''ASC'') (model m) (name tk) v top_k of
                        Inl e \<Rightarrow> ''Search failed: '' @ str_exn e
                      | Inr rows \<Rightarrow> format_results (map row_to_result rows)))"
    unfolding eq except_Exception_fst search_try_unfold [OF g m tk c]
    by (simp add: Let_def split: sum.splits list.splits)
  from m tk tr res show ?thesis by blast
qed

text \<open>
  C1 as stated fails. With \<open>top_k = 0\<close>, a store that answers a limit of 0 with no row
  and an embedding backend that answers with a vector, \<^verbatim>\<open>search_style\<close> calls the embedding
  backend and queries the store, and returns the sentinel of the formatter, not a failure.
\<close>

theorem search_top_k_zero_not_rejected:
  "(0::int) \<le> 0
   \<and> fst (search_style (fixed_env refund_rows) ''refund policy'' 0 initial_state) =
       Inr ''No relevant information found in the knowledge base.''
   \<and> calls (snd (search_style (fixed_env refund_rows) ''refund policy'' 0 initial_state)) =
       [ EmbeddingsCreate ''nomic-embed-text:v1.5'' ''classification: refund policy'',
         CursorExecute (SEARCH_QUERY_format ''<=>'' ''ASC'') ''nomic-embed-text:v1.5'' ''style'' [1, 2] 0 ]"
  by (simp add: search_style_def search_style_try_def except_Exception_def getitem_def
      initial_state_def initial_tables_def MODELS_def TASKS_def Model_init_def
      get_embedding_def search_database_def DISTANCE_OPERATORS_def DISTANCE_ORDER_def
      fixed_env_def format_results_def Let_def)

text \<open>
  The amended statement at the first tool, in the state at start-up, with \<open>top_k = 0\<close>.
\<close>

theorem search_top_k_not_validated_witness:
  "reachable (fixed_env refund_rows) initial_state
   \<and> mcp_tools ! 0 \<in> set (mcp_tools :: int tool list)
   \<and> (0::int) \<le> 0
   \<and> (\<exists>key m tk input.
           MODELS key = Some m \<and> TASKS key = Some tk \<and> input = prefix m @ ''refund policy'' @ suffix m
         \<and> new_calls initial_state (snd (call_tool (mcp_tools ! 0) (fixed_env refund_rows) ''refund policy'' (Some 0) initial_state)) =
             EmbeddingsCreate (model m) input #
               (case embeddings_create (fixed_env refund_rows) (calls initial_state) (model m) input of
                  Inl e \<Rightarrow> []
                | Inr [] \<Rightarrow> []
                | Inr (v # _) \<Rightarrow> [CursorExecute (SEARCH_QUERY_format ''<=>'' ''ASC'') (model m) (name tk) v 0])
         \<and> fst (call_tool (mcp_tools ! 0) (fixed_env refund_rows) ''refund policy'' (Some 0) initial_state) =
             Inr (case embeddings_create (fixed_env refund_rows) (calls initial_state) (model m) input of
                    Inl e \<Rightarrow> ''Search failed: '' @ str_exn e
                  | Inr [] \<Rightarrow> ''Search failed: list index out of range''
                  | Inr (v # _) \<Rightarrow>
                     (case cursor_execute (fixed_env refund_rows) (calls initial_state @ [EmbeddingsCreate (model m) input])
                             (SEARCH_QUERY_format ''<=>'' ''ASC'') (model m) (name tk) v 0 of
                        Inl e \<Rightarrow> ''Search failed: '' @ str_exn e
                      | Inr rows \<Rightarrow> format_results (map row_to_result rows))))"
proof -
  have h1: "reachable (fixed_env refund_rows) initial_state" by (rule reachable.start)
  have h2: "mcp_tools ! 0 \<in> set (mcp_tools :: int tool list)" by (simp add: mcp_tools_def)
  have h3: "(0::int) \<le> 0" by simp
  from h1 h2 h3 search_top_k_not_validated [OF h1 h2 h3, of "''refund policy''"]
  show ?thesis by blast
qed

text \<open>
  C10. Every model profile of the registry has the distance metric \<^verbatim>\<open>cosine\<close>, which its
  constructor call leaves to the default of the dataclass; so every query a public search
  operation sends to the store, in any state the process can reach, is the one built with
  the operator \<^verbatim>\<open><=>\<close> and the direction \<^verbatim>\<open>ASC\<close>, never the one of the inner-product
  or of the l2 entry of the tables.
\<close>

theorem only_cosine_selected:
  "(MODELS key = Some m \<longrightarrow> distance_metric m = ''cosine'')
   \<and> (reachable env s \<and> t \<in> set mcp_tools
        \<and> CursorExecute fq mo ta v n \<in> set (new_calls s (snd (call_tool t env query top_k s)))
      \<longrightarrow> fq = SEARCH_QUERY_format ''<=>'' ''ASC''
          \<and> fq \<noteq> SEARCH_QUERY_format ''<#>'' ''DESC''
          \<and> fq \<noteq> SEARCH_QUERY_format ''<->'' ''ASC'')"
proof (intro conjI impI)
  assume "MODELS key = Some m"
  then show "distance_metric m = ''cosine''"
    by (auto simp: MODELS_def Model_init_def split: if_splits)
next
  assume a: "reachable env s \<and> t \<in> set mcp_tools
        \<and> CursorExecute fq mo ta v n \<in> set (new_calls s (snd (call_tool t env query top_k s)))"
  then have fq: "fq = SEARCH_QUERY_format ''<=>'' ''ASC''"
    using call_tool_new_calls [of env s t query top_k] by auto
  show "fq = SEARCH_QUERY_format ''<=>'' ''ASC''" by (rule fq)
  show "fq \<noteq> SEARCH_QUERY_format ''<#>'' ''DESC''" unfolding fq by (rule query_formats_differ)
  show "fq \<noteq> SEARCH_QUERY_format ''<->'' ''ASC''" unfolding fq by (rule query_formats_differ)
qed

text \<open>
  The profile of \<^verbatim>\<open>qa\<close>, and the store query of one call of \<^verbatim>\<open>search_qa\<close> from the
  state at start-up.
\<close>

theorem only_cosine_selected_witness:
  "MODELS ''qa'' = Some (Model_init ''nomic-embed-text:v1.5'' (Some ''search_query: '') None None)
   \<and> reachable (fixed_env refund_rows) initial_state
   \<and> mcp_tools ! 1 \<in> set (mcp_tools :: int tool list)
   \<and> CursorExecute (SEARCH_QUERY_format ''<=>'' ''ASC'') ''nomic-embed-text:v1.5'' ''qa'' [1, 2] 2
        \<in> set (new_calls initial_state
             (snd (call_tool (mcp_tools ! 1) (fixed_env refund_rows) ''What is the refund policy?'' (Some 2) initial_state)))
   \<and> distance_metric (Model_init ''nomic-embed-text:v1.5'' (Some ''search_query: '') None None) = ''cosine''
   \<and> SEARCH_QUERY_format ''<=>'' ''ASC'' \<noteq> SEARCH_QUERY_format ''<#>'' ''DESC''
   \<and> SEARCH_QUERY_format ''<=>'' ''ASC'' \<noteq> SEARCH_QUERY_format ''<->'' ''ASC''"
proof -
  have h1: "MODELS ''qa'' = Some (Model_init ''nomic-embed-text:v1.5'' (Some ''search_query: '') None None)"
    by (simp add: MODELS_def)
  have h2: "reachable (fixed_env refund_rows) initial_state" by (rule reachable.start)
  have h3: "mcp_tools ! 1 \<in> set (mcp_tools :: int tool list)" by (simp add: mcp_tools_def)
  have h4: "CursorExecute (SEARCH_QUERY_format ''<=>'' ''ASC'') ''nomic-embed-text:v1.5'' ''qa'' [1, 2] 2
        \<in> set (new_calls initial_state
             (snd (call_tool (mcp_tools ! 1) (fixed_env refund_rows) ''What is the refund policy?'' (Some 2) initial_state)))"
proof -
    have "call_tool (mcp_tools ! 1) (fixed_env refund_rows) ''What is the refund policy?'' (Some 2) initial_state
            = search_qa (fixed_env refund_rows) ''What is the refund policy?'' 2 initial_state"
      by (simp add: call_tool_def mcp_tools_def)
    then show ?thesis
      unfolding search_qa_refund by (simp add: new_calls_def initial_state_def)
  qed
  from only_cosine_selected [of "''qa''" "Model_init ''nomic-embed-text:v1.5'' (Some ''search_query: '') None None"
      "fixed_env refund_rows" initial_state "mcp_tools ! 1" "SEARCH_QUERY_format ''<=>'' ''ASC''"
      "''nomic-embed-text:v1.5''" "''qa''" "[1, 2]" 2 "''What is the refund policy?''" "Some 2"]
    h1 h2 h3 h4
  show ?thesis by blast
qed

text \<open>
  C3. The registry has a model profile and a task for \<^verbatim>\<open>similar_code\<close>, but the tools
  registered are three, and run with no \<^verbatim>\<open>top_k\<close> (so with the default 3) they serve the
  profiles \<^verbatim>\<open>style\<close>, \<^verbatim>\<open>qa\<close> and \<^verbatim>\<open>semantic\<close>: no tool serves \<^verbatim>\<open>similar_code\<close>.
\<close>

theorem similar_code_has_no_tool:
  "MODELS ''similar_code'' =
     Some (Model_init ''hamidakach/nomic-embed-text-v1.5-GGUF'' (Some ''clustering: '') None None)
   \<and> TASKS ''similar_code'' =
     Some \<lparr> name = ''similar_code'', description = ''Search for similar code snippets'' \<rparr>
   \<and> map tool_name (mcp_tools :: int tool list) =
       [''search_style'', ''search_qa'', ''search_semantic_similarity'']
   \<and> calls (snd (call_tool (mcp_tools ! 0) (fixed_env []) ''q'' None initial_state)) =
       [ EmbeddingsCreate ''nomic-embed-text:v1.5'' ''classification: q'',
         CursorExecute (SEARCH_QUERY_format ''<=>'' ''ASC'') ''nomic-embed-text:v1.5'' ''style'' [1, 2] 3 ]
   \<and> calls (snd (call_tool (mcp_tools ! 1) (fixed_env []) ''q'' None initial_state)) =
       [ EmbeddingsCreate ''nomic-embed-text:v1.5'' ''search_query: q'',
         CursorExecute (SEARCH_QUERY_format ''<=>'' ''ASC'') ''nomic-embed-text:v1.5'' ''qa'' [1, 2] 3 ]
   \<and> calls (snd (call_tool (mcp_tools ! 2) (fixed_env []) ''q'' None initial_state)) =
       [ EmbeddingsCreate ''nomic-embed-text:v1.5'' ''clustering: q'',
         CursorExecute (SEARCH_QUERY_format ''<=>'' ''ASC'') ''nomic-embed-text:v1.5'' ''semantic'' [1, 2] 3 ]"
  by (simp add: mcp_tools_def call_tool_def
      search_style_def search_style_try_def search_qa_def search_qa_try_def
      search_semantic_similarity_def search_semantic_similarity_try_def
      except_Exception_def getitem_def
      initial_state_def initial_tables_def MODELS_def TASKS_def Model_init_def
      get_embedding_def search_database_def DISTANCE_OPERATORS_def DISTANCE_ORDER_def
      fixed_env_def format_results_def Let_def)

section \<open>Ranking by inner product\<close>

text \<open>
  C2. For the metric \<^verbatim>\<open>inner_product\<close> the tables give the operator \<^verbatim>\<open><#>\<close> and the
  direction \<^verbatim>\<open>DESC\<close>. On a store whose \<^verbatim>\<open><#>\<close> is the negative inner product, the
  query of \<^verbatim>\<open>_search_database\<close> for a model with that metric returns the chunk with the
  lower inner product first: of the two chunks, \<^verbatim>\<open>far.md\<close> (inner product 1) comes before
  \<^verbatim>\<open>near.md\<close> (inner product 2), and with a limit of 1 only \<^verbatim>\<open>far.md\<close> is returned.
\<close>

theorem inner_product_ranks_lower_first:
  "getitem DISTANCE_OPERATORS ''inner_product'' = Inr ''<#>''
   \<and> getitem DISTANCE_ORDER ''inner_product'' = Inr ''DESC''
   \<and> inner_product [1, 0] [1, 0] < inner_product [2, 0] [1, 0]
   \<and> fst (search_database (store_env two_chunks) [1, 0]
            (Model_init ''m'' None None (Some ''inner_product''))
            \<lparr> name = ''t'', description = '''' \<rparr> 2 initial_state) =
       Inr [ \<lparr> doc_id = ''1'', doc_name = PStr ''far.md'', matching_content = PStr ''far'' \<rparr>,
             \<lparr> doc_id = ''2'', doc_name = PStr ''near.md'', matching_content = PStr ''near'' \<rparr> ]
   \<and> fst (search_database (store_env two_chunks) [1, 0]
            (Model_init ''m'' None None (Some ''inner_product''))
            \<lparr> name = ''t'', description = '''' \<rparr> 1 initial_state) =
       Inr [ \<lparr> doc_id = ''1'', doc_name = PStr ''far.md'', matching_content = PStr ''far'' \<rparr> ]"
proof -
  have ne: "SEARCH_QUERY_format ''<#>'' ''DESC'' \<noteq> SEARCH_QUERY_format ''<#>'' ''ASC''"
    by (simp add: SEARCH_QUERY_format_def)
  show ?thesis
    by (simp add: getitem_def DISTANCE_OPERATORS_def DISTANCE_ORDER_def inner_product_def
        search_database_def initial_state_def initial_tables_def Model_init_def store_env_def
        store_select_def two_chunks_def ne Let_def row_to_result_def str_int_def str_nat_small
        numeral_2_eq_2)
qed

end
